theory Spec2Isabelle
  imports Complex_Main
begin

section \<open>NeovimEditor: the editor integration class\<close>

text \<open>
  A shallow embedding of \<^verbatim>\<open>browser/src/Editor/NeovimEditor.tsx\<close>. The class is an
  event adapter: each handler registered in the constructor mutates a few private fields
  and calls into collaborators (the editor process, the UI action dispatcher, the
  renderer, the overlays). The private fields become a record; every call into a
  collaborator is appended, in program order, to a trace of effects; the two host
  facilities the class schedules itself with (\<^verbatim>\<open>setTimeout\<close> and
  \<^verbatim>\<open>requestAnimationFrame\<close>) are part of the state.
\<close>

subsection \<open>Values crossing the boundary\<close>

text \<open>Opaque payloads (\<^verbatim>\<open>any\<close> in the source) are carried as their serialisation.\<close>

type_synonym payload = string

text \<open>
  A configuration value, with JavaScript truthiness. The configuration is a key-value
  store; \<^verbatim>\<open>Config.getValue\<close> of a key it does not hold is \<^verbatim>\<open>undefined\<close>.
\<close>

datatype config_value = VUndefined | VBool bool | VNum rat | VStr string

fun truthy :: "config_value \<Rightarrow> bool" where
  "truthy VUndefined = False"
| "truthy (VBool b) = b"
| "truthy (VNum n) = (n \<noteq> 0)"
| "truthy (VStr s) = (s \<noteq> [])"

type_synonym config = "(string \<times> config_value) list"

definition getValue :: "config \<Rightarrow> string \<Rightarrow> config_value" where
  "getValue c key = (case map_of c key of None \<Rightarrow> VUndefined | Some v \<Rightarrow> v)"

text \<open>An \<^verbatim>\<open>err: string\<close> argument that may be null: truthy when a non-empty string.\<close>

fun truthy_string :: "string option \<Rightarrow> bool" where
  "truthy_string None = False"
| "truthy_string (Some s) = (s \<noteq> [])"

text \<open>A timer handle or null: truthy when a non-zero handle.\<close>

fun truthy_handle :: "nat option \<Rightarrow> bool" where
  "truthy_handle None = False"
| "truthy_handle (Some h) = (h \<noteq> 0)"

text \<open>\<^verbatim>\<open>String.prototype.startsWith\<close> and \<^verbatim>\<open>String.prototype.split\<close> on one character.\<close>

definition startsWith :: "string \<Rightarrow> string \<Rightarrow> bool" where
  "startsWith s p = (take (length p) s = p)"

fun split_on :: "char \<Rightarrow> string \<Rightarrow> string list" where
  "split_on c [] = [[]]"
| "split_on c (x # xs) =
     (if x = c then [] # split_on c xs
      else (case split_on c xs of
              [] \<Rightarrow> [[x]]
            | l # ls \<Rightarrow> (x # l) # ls))"

record js_error =
  err_message :: string
  err_stack :: "string option"

record log_entry =
  log_type :: string
  log_message :: string
  log_details :: "string list option"

record html_element =
  offsetWidth :: int
  offsetHeight :: int
  parentElement :: "string option"

text \<open>
  What a handler can throw: a property read on \<^verbatim>\<open>undefined\<close>, and the error with which
  \<^verbatim>\<open>ReactDOM.render\<close> rejects a container that is not a DOM element.
\<close>

datatype exn = TypeError string | InvariantViolation string

text \<open>A handler either returns or throws; the fields it wrote before throwing stay written.\<close>

datatype 'a outcome = Returned 'a | Threw exn 'a

fun state_of :: "'a outcome \<Rightarrow> 'a" where
  "state_of (Returned s) = s"
| "state_of (Threw e s) = s"

subsection \<open>Effects\<close>

datatype ui_action =
    HideSignatureHelp
  | ShowSignatureHelp payload
  | SetColors
  | MakeLog log_entry
  | SetMode string
  | ShowCursorLine
  | ShowCursorColumn
  | HideCursorLine
  | HideCursorColumn
  | HideCompletions
  | HideQuickInfo
  | HidePopupMenu
  | SelectMenuItem bool
  | NextMenuItem
  | PreviousMenuItem
  | NextCompletion
  | PreviousCompletion
  | SetCursorLineOpacity config_value
  | SetCursorColumnOpacity config_value
  | SetCursorPosition

datatype effect =
    UI ui_action
  | NeovimStart "string list"
  | NeovimResize int int
  | NeovimInput string
  | NeovimCommand string
  | NeovimSetFont config_value config_value
  | NeovimGetCwdThenChdir
  | RendererStart html_element
  | RendererOnAction payload
  | RendererUpdate
  | RendererOnResize
  | ScreenDispatch payload
  | DirtyAllCells
  | CleanUpRenderedCells
  | ErrorOverlayOnVimEvent string payload
  | ErrorOverlayHideDetails
  | ErrorOverlayShowDetails
  | LiveEvaluationOverlayOnVimEvent string payload
  | ScrollBarOverlayOnVimEvent string payload
  | ScrollBarOverlayOnBufferUpdate payload "string list"
  | OverlayManagerNotifyWindowDimensionsChanged payload payload
  | TasksOnEvent payload
  | TasksShow
  | QuickOpenShow
  | FormatBuffer
  | AutoCompletionComplete
  | ExecuteCommand string
  | FocusPreviousInstance
  | FocusNextInstance
  | ReactRenderInstallHelp string

subsection \<open>State\<close>

text \<open>
  The private fields of the class, the configuration object it holds, the host's pending
  timers (handles of \<^verbatim>\<open>setTimeout\<close> calls not yet fired or cleared; the only callback
  ever passed is \<^verbatim>\<open>_onUpdate\<close>), the number of \<^verbatim>\<open>_render\<close> callbacks queued for the
  next animation frame, and the trace.
\<close>

record world =
  pendingTimeout :: "nat option"
  element :: "html_element option"
  cursorLine :: config_value
  cursorColumn :: config_value
  errorStartingNeovim :: bool
  config :: config
  timers :: "nat list"
  timerCount :: nat
  frameCallbacks :: nat
  effects :: "effect list"

definition emit :: "effect \<Rightarrow> world \<Rightarrow> world" where
  "emit e w = w\<lparr>effects := effects w @ [e]\<rparr>"

text \<open>\<^verbatim>\<open>setTimeout\<close> hands out a fresh positive handle; \<^verbatim>\<open>clearTimeout\<close> cancels it.\<close>

definition setTimeout :: "world \<Rightarrow> nat \<times> world" where
  "setTimeout w =
     (let h = Suc (timerCount w)
      in (h, w\<lparr>timers := timers w @ [h], timerCount := h\<rparr>))"

definition clearTimeout :: "nat \<Rightarrow> world \<Rightarrow> world" where
  "clearTimeout h w = w\<lparr>timers := removeAll h (timers w)\<rparr>"

definition requestAnimationFrame :: "world \<Rightarrow> world" where
  "requestAnimationFrame w = w\<lparr>frameCallbacks := Suc (frameCallbacks w)\<rparr>"

text \<open>The fields as their initialisers leave them, before the constructor body runs.\<close>

definition fresh :: "config \<Rightarrow> world" where
  "fresh c =
     \<lparr>pendingTimeout = None, element = None,
      cursorLine = VBool False, cursorColumn = VBool False,
      errorStartingNeovim = False, config = c,
      timers = [], timerCount = 0, frameCallbacks = 0, effects = []\<rparr>"

subsection \<open>Methods\<close>

definition onUpdate :: "world \<Rightarrow> world" where
  "onUpdate w =
     (let w1 = emit (UI SetCursorPosition) w
      in (case pendingTimeout w1 of
            None \<Rightarrow> w1
          | Some h \<Rightarrow>
              if truthy_handle (Some h)
              then (clearTimeout h w1)\<lparr>pendingTimeout := None\<rparr>
              else w1))"

definition onConfigChanged :: "world \<Rightarrow> world" where
  "onConfigChanged w =
     (let w1 = w\<lparr>cursorLine := getValue (config w) ''editor.cursorLine''\<rparr>;
          w2 = w1\<lparr>cursorColumn := getValue (config w1) ''editor.cursorColumn''\<rparr>;
          w3 = emit (UI (SetCursorLineOpacity (getValue (config w2) ''editor.cursorLineOpacity''))) w2;
          w4 = emit (UI (SetCursorColumnOpacity (getValue (config w3) ''editor.cursorColumnOpacity''))) w3;
          w5 = (if truthy (cursorLine w4) then emit (UI ShowCursorLine) w4 else w4);
          w6 = (if truthy (cursorColumn w5) then emit (UI ShowCursorColumn) w5 else w5);
          w7 = emit (NeovimSetFont (getValue (config w6) ''editor.fontFamily'')
                                   (getValue (config w6) ''editor.fontSize'')) w6
      in onUpdate w7)"

definition onResize :: "world \<Rightarrow> world" where
  "onResize w =
     (case element w of
        None \<Rightarrow> w
      | Some el \<Rightarrow>
          (let width = offsetWidth el;
               height = offsetHeight el;
               w1 = emit DirtyAllCells w;
               w2 = emit (NeovimResize width height) w1
           in emit RendererOnResize w2))"

definition render_step :: "world \<Rightarrow> world" where
  "render_step w =
     (let w1 = (if truthy_handle (pendingTimeout w) then emit (UI SetCursorPosition) w else w);
          w2 = emit RendererUpdate w1;
          w3 = emit CleanUpRenderedCells w2
      in requestAnimationFrame w3)"

definition onModeChanged :: "string \<Rightarrow> world \<Rightarrow> world" where
  "onModeChanged newMode w =
     (let w1 = emit (UI (SetMode newMode)) w;
          w2 =
            (if newMode = ''normal'' then
               (let a = (if truthy (cursorLine w1) then emit (UI ShowCursorLine) w1 else w1);
                    b = (if truthy (cursorColumn a) then emit (UI ShowCursorColumn) a else a);
                    c = emit (UI HideCompletions) b
                in emit (UI HideSignatureHelp) c)
             else if newMode = ''insert'' then
               (let a = emit (UI HideQuickInfo) w1;
                    b = (if truthy (cursorLine a) then emit (UI ShowCursorLine) a else a)
                in (if truthy (cursorColumn b) then emit (UI ShowCursorColumn) b else b))
             else if newMode = ''cmdline'' then
               (let a = emit (UI HideCursorColumn) w1;
                    b = emit (UI HideCursorLine) a;
                    c = emit (UI HideCompletions) b
                in emit (UI HideQuickInfo) c)
             else w1)
      in (if newMode = ''insert'' then emit ErrorOverlayHideDetails w2
          else emit ErrorOverlayShowDetails w2))"

definition onVimEvent :: "string \<Rightarrow> payload \<Rightarrow> world \<Rightarrow> world" where
  "onVimEvent eventName evt w =
     (let w1 = emit (ErrorOverlayOnVimEvent eventName evt) w;
          w2 = emit (LiveEvaluationOverlayOnVimEvent eventName evt) w1;
          w3 = emit (ScrollBarOverlayOnVimEvent eventName evt) w2;
          w4 = emit (TasksOnEvent evt) w3;
          w5 =
            (if eventName = ''BufEnter'' then
               (let a = emit (UI HideCompletions) w4;
                    b = emit (UI HidePopupMenu) a;
                    c = emit (UI HideSignatureHelp) b
                in emit (UI HideQuickInfo) c)
             else w4)
      in (if eventName = ''DirChanged'' then emit NeovimGetCwdThenChdir w5 else w5))"

definition init :: "string list \<Rightarrow> world \<Rightarrow> world" where
  "init filesToOpen w = emit (NeovimStart filesToOpen) w"

text \<open>\<^verbatim>\<open>render(element)\<close>; the mouse listener it registers is \<open>onMouse\<close>.\<close>

definition render :: "html_element \<Rightarrow> world \<Rightarrow> world" where
  "render el w =
     (let w1 = w\<lparr>element := Some el\<rparr>;
          w2 = emit (RendererStart el) w1
      in onResize w2)"

definition onMouse :: "string \<Rightarrow> world \<Rightarrow> world" where
  "onMouse mouseInput w = emit (NeovimInput mouseInput) (emit (UI HideCompletions) w)"

subsection \<open>Handlers registered by the constructor\<close>

text \<open>The plugin manager's \<^verbatim>\<open>signature-help-response\<close>.\<close>

definition onSignatureHelpResponse :: "string option \<Rightarrow> payload \<Rightarrow> world \<Rightarrow> world" where
  "onSignatureHelpResponse err signatureHelp w =
     (if truthy_string err then emit (UI HideSignatureHelp) w
      else emit (UI (ShowSignatureHelp signatureHelp)) w)"

text \<open>
  The editor process's \<^verbatim>\<open>error\<close>: the flag is written first, then
  \<^verbatim>\<open>this._element.parentElement\<close> is read, which throws while \<^verbatim>\<open>_element\<close> is unset;
  \<^verbatim>\<open>ReactDOM.render\<close> then throws when the element has no parent to render into.
\<close>

definition onError :: "string \<Rightarrow> world \<Rightarrow> world outcome" where
  "onError err w =
     (let w1 = w\<lparr>errorStartingNeovim := True\<rparr>
      in (case element w1 of
            None \<Rightarrow> Threw (TypeError ''parentElement'') w1
          | Some el \<Rightarrow>
              (case parentElement el of
                 None \<Rightarrow> Threw (InvariantViolation ''Target container is not a DOM element'') w1
               | Some container \<Rightarrow> Returned (emit (ReactRenderInstallHelp container) w1))))"

definition onBufferUpdate :: "payload \<Rightarrow> string list \<Rightarrow> world \<Rightarrow> world" where
  "onBufferUpdate context lines w = emit (ScrollBarOverlayOnBufferUpdate context lines) w"

definition onWindowDisplayUpdate :: "payload \<Rightarrow> payload \<Rightarrow> world \<Rightarrow> world" where
  "onWindowDisplayUpdate eventContext lineMapping w =
     emit (OverlayManagerNotifyWindowDimensionsChanged eventContext lineMapping) w"

definition onAction :: "payload \<Rightarrow> world \<Rightarrow> world" where
  "onAction action w =
     (let w1 = emit (RendererOnAction action) w;
          w2 = emit (ScreenDispatch action) w1;
          w3 = emit (UI SetColors) w2
      in (if \<not> truthy_handle (pendingTimeout w3)
          then (case setTimeout w3 of (h, w4) \<Rightarrow> w4\<lparr>pendingTimeout := Some h\<rparr>)
          else w3))"

definition onLogInfo :: "string \<Rightarrow> world \<Rightarrow> world" where
  "onLogInfo info w =
     emit (UI (MakeLog \<lparr>log_type = ''info'', log_message = info, log_details = None\<rparr>)) w"

definition onLogWarning :: "string \<Rightarrow> world \<Rightarrow> world" where
  "onLogWarning warning w =
     emit (UI (MakeLog \<lparr>log_type = ''warning'', log_message = warning, log_details = None\<rparr>)) w"

text \<open>\<^verbatim>\<open>err.stack.split("\n")\<close> throws when the error carries no stack.\<close>

definition onLogError :: "js_error \<Rightarrow> world \<Rightarrow> world outcome" where
  "onLogError err w =
     (case err_stack err of
        None \<Rightarrow> Threw (TypeError ''split'') w
      | Some st \<Rightarrow>
          Returned (emit (UI (MakeLog \<lparr>log_type = ''error'', log_message = err_message err,
                                       log_details = Some (split_on (CHR 0x0A) st)\<rparr>)) w))"

text \<open>
  What the \<^verbatim>\<open>keydown\<close> handler reads from outside the class: the two selectors of the
  UI store and the mode of the screen model.
\<close>

record key_reads =
  isPopupMenuOpen :: bool
  areCompletionsVisible :: bool
  screenMode :: string

text \<open>
  The handler returns early from its first two blocks, and from the completion block for
  the three keys the block knows; what is left of the body after that block is
  \<open>onPlainKey\<close>.
\<close>

definition onPlainKey :: "key_reads \<Rightarrow> string \<Rightarrow> world \<Rightarrow> world" where
  "onPlainKey r key w =
     (if key = ''<f12>'' then emit (ExecuteCommand ''oni.editor.gotoDefinition'') w
      else if key = ''<C-p>'' \<and> screenMode r = ''normal'' then emit QuickOpenShow w
      else if key = ''<C-P>'' \<and> screenMode r = ''normal'' then emit TasksShow w
      else if key = ''<C-pageup>'' then emit FocusPreviousInstance w
      else if key = ''<C-pagedown>'' then emit FocusNextInstance w
      else emit (NeovimInput key) w)"

definition onKeyDown :: "key_reads \<Rightarrow> string \<Rightarrow> world \<Rightarrow> world" where
  "onKeyDown r key w =
     (if key = ''<f3>'' then emit FormatBuffer w
      else if isPopupMenuOpen r then
        (if key = ''<esc>'' then emit (UI HidePopupMenu) w
         else if key = ''<enter>'' then emit (UI (SelectMenuItem False)) w
         else if key = ''<C-v>'' then emit (UI (SelectMenuItem True)) w
         else if key = ''<C-n>'' then emit (UI NextMenuItem) w
         else if key = ''<C-p>'' then emit (UI PreviousMenuItem) w
         else w)
      else if areCompletionsVisible r then
        (if key = ''<enter>'' then emit AutoCompletionComplete w
         else if key = ''<C-n>'' then emit (UI NextCompletion) w
         else if key = ''<C-p>'' then emit (UI PreviousCompletion) w
         else onPlainKey r key w)
      else onPlainKey r key w)"

text \<open>The host window's \<^verbatim>\<open>menu-item-click\<close>; \<open>CHR 0x22\<close> is the double quote.\<close>

definition onMenuItemClick :: "string \<Rightarrow> world \<Rightarrow> world" where
  "onMenuItemClick message w =
     (if startsWith message '':''
      then emit (NeovimCommand (''exec '' @ [CHR 0x22] @ message @ [CHR 0x22])) w
      else emit (NeovimCommand (''exec '' @ [CHR 0x22] @ '':normal! '' @ message @ [CHR 0x22])) w)"

text \<open>
  The part of the constructor body that touches the state above: the first
  \<^verbatim>\<open>_render()\<close> and the first \<^verbatim>\<open>_onConfigChanged()\<close>, in that order.
\<close>

definition construct :: "config \<Rightarrow> world" where
  "construct c = onConfigChanged (render_step (fresh c))"

subsection \<open>The event loop\<close>

text \<open>The events of the editor process, one constructor per \<^verbatim>\<open>_neovimInstance.on\<close>.\<close>

datatype neovim_event =
    Event string payload
  | Error string
  | BufferUpdate payload "string list"
  | WindowDisplayUpdate payload payload
  | Action payload
  | LogInfo string
  | LogWarning string
  | LogError js_error
  | ModeChange string

fun onNeovim :: "neovim_event \<Rightarrow> world \<Rightarrow> world outcome" where
  "onNeovim (Event eventName evt) w = Returned (onVimEvent eventName evt w)"
| "onNeovim (Error err) w = onError err w"
| "onNeovim (BufferUpdate context lines) w = Returned (onBufferUpdate context lines w)"
| "onNeovim (WindowDisplayUpdate eventContext lineMapping) w =
     Returned (onWindowDisplayUpdate eventContext lineMapping w)"
| "onNeovim (Action action) w = Returned (onAction action w)"
| "onNeovim (LogInfo info) w = Returned (onLogInfo info w)"
| "onNeovim (LogWarning warning) w = Returned (onLogWarning warning w)"
| "onNeovim (LogError err) w = onLogError err w"
| "onNeovim (ModeChange newMode) w = Returned (onModeChanged newMode w)"

text \<open>
  One turn of the host's event loop: an event of the editor process, one of the other
  listeners, a public method, a due timer, or an animation frame. A timer that fires
  leaves the pending set and runs \<^verbatim>\<open>_onUpdate\<close>; an animation frame runs the
  \<^verbatim>\<open>_render\<close> callbacks queued before it. A configuration change replaces the
  configuration and calls the registered listener.
\<close>

datatype turn =
    Neovim neovim_event
  | SignatureHelpResponse "string option" payload
  | KeyDown key_reads string
  | Mouse string
  | MenuItemClick string
  | WindowResize
  | ConfigChange config
  | Init "string list"
  | Render html_element
  | TimerFires nat
  | AnimationFrame

definition fireTimer :: "nat \<Rightarrow> world \<Rightarrow> world" where
  "fireTimer h w =
     (if h \<in> set (timers w) then onUpdate (w\<lparr>timers := removeAll h (timers w)\<rparr>) else w)"

definition animationFrame :: "world \<Rightarrow> world" where
  "animationFrame w = (render_step ^^ frameCallbacks w) (w\<lparr>frameCallbacks := 0\<rparr>)"

fun step :: "turn \<Rightarrow> world \<Rightarrow> world" where
  "step (Neovim ev) w = state_of (onNeovim ev w)"
| "step (SignatureHelpResponse err signatureHelp) w = onSignatureHelpResponse err signatureHelp w"
| "step (KeyDown r key) w = onKeyDown r key w"
| "step (Mouse mouseInput) w = onMouse mouseInput w"
| "step (MenuItemClick message) w = onMenuItemClick message w"
| "step WindowResize w = onResize w"
| "step (ConfigChange c) w = onConfigChanged (w\<lparr>config := c\<rparr>)"
| "step (Init filesToOpen) w = init filesToOpen w"
| "step (Render el) w = render el w"
| "step (TimerFires h) w = fireTimer h w"
| "step AnimationFrame w = animationFrame w"

fun run :: "turn list \<Rightarrow> world \<Rightarrow> world" where
  "run [] w = w"
| "run (t # ts) w = run ts (step t w)"

subsection \<open>Observation\<close>

text \<open>What a handler appended to the trace: the effects of \<open>w'\<close> past those of \<open>w\<close>.\<close>

definition emitted :: "world \<Rightarrow> world \<Rightarrow> effect list" where
  "emitted w w' = drop (length (effects w)) (effects w')"

fun is_error_event :: "neovim_event \<Rightarrow> bool" where
  "is_error_event (Error err) = True"
| "is_error_event ev = False"

fun is_install_help :: "effect \<Rightarrow> bool" where
  "is_install_help (ReactRenderInstallHelp p) = True"
| "is_install_help e = False"

fun is_log :: "effect \<Rightarrow> bool" where
  "is_log (UI (MakeLog entry)) = True"
| "is_log e = False"

fun is_input :: "effect \<Rightarrow> bool" where
  "is_input (NeovimInput key) = True"
| "is_input e = False"


text \<open>
  The cached flags follow the configuration: the two fields hold what the configuration
  the class holds answers for \<^verbatim>\<open>editor.cursorLine\<close> and \<^verbatim>\<open>editor.cursorColumn\<close>.
\<close>

definition flags_cached :: "world \<Rightarrow> bool" where
  "flags_cached w =
     (cursorLine w = getValue (config w) ''editor.cursorLine''
      \<and> cursorColumn w = getValue (config w) ''editor.cursorColumn'')"

text \<open>
  Modelled from the spec: the UI store behind \<^verbatim>\<open>UI.Actions\<close> is not among the sources.
  The spec speaks of the visibility of the cursor line and the cursor column; here
  \<^verbatim>\<open>showCursorLine\<close>/\<^verbatim>\<open>showCursorColumn\<close> make them visible,
  \<^verbatim>\<open>hideCursorLine\<close>/\<^verbatim>\<open>hideCursorColumn\<close> hide them, and no other action changes them.
\<close>

record view =
  cursorLineVisible :: bool
  cursorColumnVisible :: bool

fun reduce :: "ui_action \<Rightarrow> view \<Rightarrow> view" where
  "reduce ShowCursorLine v = v\<lparr>cursorLineVisible := True\<rparr>"
| "reduce HideCursorLine v = v\<lparr>cursorLineVisible := False\<rparr>"
| "reduce ShowCursorColumn v = v\<lparr>cursorColumnVisible := True\<rparr>"
| "reduce HideCursorColumn v = v\<lparr>cursorColumnVisible := False\<rparr>"
| "reduce a v = v"

fun dispatch :: "effect list \<Rightarrow> view \<Rightarrow> view" where
  "dispatch [] v = v"
| "dispatch (UI a # es) v = dispatch es (reduce a v)"
| "dispatch (e # es) v = dispatch es v"

subsection \<open>Sample inputs\<close>

definition defaults :: config where
  "defaults =
     [(''editor.cursorLine'', VBool True),
      (''editor.cursorColumn'', VBool False),
      (''editor.cursorLineOpacity'', VNum (1 / 10)),
      (''editor.cursorColumnOpacity'', VNum (1 / 10)),
      (''editor.fontFamily'', VStr ''Consolas''),
      (''editor.fontSize'', VStr ''14px'')]"

definition plain :: config where
  "plain = (''editor.cursorLine'', VBool False) # defaults"

definition host :: html_element where
  "host = \<lparr>offsetWidth = 800, offsetHeight = 600, parentElement = Some ''host''\<rparr>"

definition orphan :: html_element where
  "orphan = \<lparr>offsetWidth = 800, offsetHeight = 600, parentElement = None\<rparr>"

definition hidden :: view where
  "hidden = \<lparr>cursorLineVisible = False, cursorColumnVisible = False\<rparr>"

section \<open>Properties\<close>

subsection \<open>Fields a handler leaves alone\<close>

lemma emit_fields [simp]:
  "pendingTimeout (emit e w) = pendingTimeout w"
  "element (emit e w) = element w"
  "cursorLine (emit e w) = cursorLine w"
  "cursorColumn (emit e w) = cursorColumn w"
  "errorStartingNeovim (emit e w) = errorStartingNeovim w"
  "config (emit e w) = config w"
  "timers (emit e w) = timers w"
  "timerCount (emit e w) = timerCount w"
  "frameCallbacks (emit e w) = frameCallbacks w"
  "effects (emit e w) = effects w @ [e]"
  by (simp_all add: emit_def)

lemma emitted_append: "effects w' = effects w @ es \<Longrightarrow> emitted w w' = es"
  by (simp add: emitted_def)

lemma emitted_self [simp]: "emitted w w = []"
  by (simp add: emitted_def)

lemma onUpdate_effects: "effects (onUpdate w) = effects w @ [UI SetCursorPosition]"
  by (simp add: onUpdate_def Let_def clearTimeout_def split: option.splits)



lemma onUpdate_frames: "frameCallbacks (onUpdate w) = frameCallbacks w"
  by (simp add: onUpdate_def Let_def clearTimeout_def split: option.splits)



lemma onConfigChanged_effects:
  "effects (onConfigChanged w) = effects w @
     [UI (SetCursorLineOpacity (getValue (config w) ''editor.cursorLineOpacity'')),
      UI (SetCursorColumnOpacity (getValue (config w) ''editor.cursorColumnOpacity''))]
     @ (if truthy (getValue (config w) ''editor.cursorLine'') then [UI ShowCursorLine] else [])
     @ (if truthy (getValue (config w) ''editor.cursorColumn'') then [UI ShowCursorColumn] else [])
     @ [NeovimSetFont (getValue (config w) ''editor.fontFamily'') (getValue (config w) ''editor.fontSize''),
        UI SetCursorPosition]"
  by (simp add: onConfigChanged_def Let_def onUpdate_effects)

lemma onUpdate_flags:
  "cursorLine (onUpdate w) = cursorLine w"
  "cursorColumn (onUpdate w) = cursorColumn w"
  by (simp_all add: onUpdate_def Let_def clearTimeout_def split: option.splits)

lemma onConfigChanged_flags:
  "cursorLine (onConfigChanged w) = getValue (config w) ''editor.cursorLine''"
  "cursorColumn (onConfigChanged w) = getValue (config w) ''editor.cursorColumn''"
  by (simp_all add: onConfigChanged_def Let_def onUpdate_flags)


lemma onConfigChanged_frames: "frameCallbacks (onConfigChanged w) = frameCallbacks w"
  by (simp add: onConfigChanged_def Let_def onUpdate_frames)

lemma render_step_effects:
  "effects (render_step w) = effects w
     @ (if truthy_handle (pendingTimeout w) then [UI SetCursorPosition] else [])
     @ [RendererUpdate, CleanUpRenderedCells]"
  by (simp add: render_step_def Let_def requestAnimationFrame_def)

lemma render_step_fields:
  "frameCallbacks (render_step w) = Suc (frameCallbacks w)"
  "timers (render_step w) = timers w"
  "pendingTimeout (render_step w) = pendingTimeout w"
  by (simp_all add: render_step_def Let_def requestAnimationFrame_def)

lemma render_steps_fields:
  "frameCallbacks ((render_step ^^ n) w) = n + frameCallbacks w"
  "timers ((render_step ^^ n) w) = timers w"
  "pendingTimeout ((render_step ^^ n) w) = pendingTimeout w"
  by (induction n) (simp_all add: render_step_fields)

lemma animationFrame_fields:
  "frameCallbacks (animationFrame w) = frameCallbacks w"
  "timers (animationFrame w) = timers w"
  "pendingTimeout (animationFrame w) = pendingTimeout w"
  by (simp_all add: animationFrame_def render_steps_fields)

lemma animationFrame_one:
  "frameCallbacks w = 1 \<Longrightarrow> animationFrame w = render_step (w\<lparr>frameCallbacks := 0\<rparr>)"
  by (simp add: animationFrame_def)

lemma onAction_effects:
  "effects (onAction a w) = effects w @ [RendererOnAction a, ScreenDispatch a, UI SetColors]"
  by (simp add: onAction_def Let_def setTimeout_def)


lemma onAction_frames: "frameCallbacks (onAction a w) = frameCallbacks w"
  by (simp add: onAction_def Let_def setTimeout_def)




lemma fireTimer_frames: "frameCallbacks (fireTimer h w) = frameCallbacks w"
  by (simp add: fireTimer_def onUpdate_frames)

lemma onResize_fields:
  "timers (onResize w) = timers w"
  "pendingTimeout (onResize w) = pendingTimeout w"
  "frameCallbacks (onResize w) = frameCallbacks w"
  by (simp_all add: onResize_def Let_def split: option.splits)

lemma render_fields:
  "timers (render el w) = timers w"
  "pendingTimeout (render el w) = pendingTimeout w"
  "frameCallbacks (render el w) = frameCallbacks w"
  by (simp_all add: render_def Let_def onResize_fields)

lemma onKeyDown_fields:
  "timers (onKeyDown r k w) = timers w"
  "pendingTimeout (onKeyDown r k w) = pendingTimeout w"
  "frameCallbacks (onKeyDown r k w) = frameCallbacks w"
  by (simp_all add: onKeyDown_def onPlainKey_def)

lemma onModeChanged_fields:
  "timers (onModeChanged m w) = timers w"
  "pendingTimeout (onModeChanged m w) = pendingTimeout w"
  "frameCallbacks (onModeChanged m w) = frameCallbacks w"
  by (simp_all add: onModeChanged_def Let_def)

lemma onVimEvent_fields:
  "timers (onVimEvent n e w) = timers w"
  "pendingTimeout (onVimEvent n e w) = pendingTimeout w"
  "frameCallbacks (onVimEvent n e w) = frameCallbacks w"
  by (simp_all add: onVimEvent_def Let_def)

lemma onError_fields:
  "timers (state_of (onError err w)) = timers w"
  "pendingTimeout (state_of (onError err w)) = pendingTimeout w"
  "frameCallbacks (state_of (onError err w)) = frameCallbacks w"
  by (simp_all add: onError_def Let_def split: option.splits)

lemma onLogError_fields:
  "timers (state_of (onLogError err w)) = timers w"
  "pendingTimeout (state_of (onLogError err w)) = pendingTimeout w"
  "frameCallbacks (state_of (onLogError err w)) = frameCallbacks w"
  by (simp_all add: onLogError_def split: option.splits)

lemma small_handler_fields:
  "timers (onSignatureHelpResponse err sh w) = timers w"
  "pendingTimeout (onSignatureHelpResponse err sh w) = pendingTimeout w"
  "frameCallbacks (onSignatureHelpResponse err sh w) = frameCallbacks w"
  "timers (onBufferUpdate c ls w) = timers w"
  "pendingTimeout (onBufferUpdate c ls w) = pendingTimeout w"
  "frameCallbacks (onBufferUpdate c ls w) = frameCallbacks w"
  "timers (onWindowDisplayUpdate c lm w) = timers w"
  "pendingTimeout (onWindowDisplayUpdate c lm w) = pendingTimeout w"
  "frameCallbacks (onWindowDisplayUpdate c lm w) = frameCallbacks w"
  "timers (onLogInfo i w) = timers w"
  "pendingTimeout (onLogInfo i w) = pendingTimeout w"
  "frameCallbacks (onLogInfo i w) = frameCallbacks w"
  "timers (onLogWarning i w) = timers w"
  "pendingTimeout (onLogWarning i w) = pendingTimeout w"
  "frameCallbacks (onLogWarning i w) = frameCallbacks w"
  "timers (onMouse i w) = timers w"
  "pendingTimeout (onMouse i w) = pendingTimeout w"
  "frameCallbacks (onMouse i w) = frameCallbacks w"
  "timers (onMenuItemClick i w) = timers w"
  "pendingTimeout (onMenuItemClick i w) = pendingTimeout w"
  "frameCallbacks (onMenuItemClick i w) = frameCallbacks w"
  "timers (init fs w) = timers w"
  "pendingTimeout (init fs w) = pendingTimeout w"
  "frameCallbacks (init fs w) = frameCallbacks w"
  by (simp_all add: onSignatureHelpResponse_def onBufferUpdate_def onWindowDisplayUpdate_def
      onLogInfo_def onLogWarning_def onMouse_def onMenuItemClick_def init_def)

lemmas passive_fields =
  onResize_fields render_fields onKeyDown_fields onModeChanged_fields onVimEvent_fields
  onError_fields onLogError_fields small_handler_fields animationFrame_fields



lemma onNeovim_frames: "frameCallbacks (state_of (onNeovim ev w)) = frameCallbacks w"
  by (cases ev) (simp_all add: onAction_frames passive_fields)


lemma step_frames: "frameCallbacks (step t w) = frameCallbacks w"
  by (cases t)
    (simp_all add: onNeovim_frames fireTimer_frames onConfigChanged_frames passive_fields)


lemma run_frames: "frameCallbacks (run ts w) = frameCallbacks w"
  by (induction ts arbitrary: w) (simp_all add: step_frames)



lemma construct_frames: "frameCallbacks (construct c) = 1"
  by (simp add: construct_def onConfigChanged_frames render_step_fields fresh_def)

lemma flags_cached_cong:
  "cursorLine w' = cursorLine w \<Longrightarrow> cursorColumn w' = cursorColumn w \<Longrightarrow> config w' = config w
     \<Longrightarrow> flags_cached w \<Longrightarrow> flags_cached w'"
  by (simp add: flags_cached_def)

lemma onUpdate_config: "config (onUpdate w) = config w"
  by (simp add: onUpdate_def Let_def clearTimeout_def split: option.splits)

lemma onConfigChanged_config: "config (onConfigChanged w) = config w"
  by (simp add: onConfigChanged_def Let_def onUpdate_config)

lemma onConfigChanged_cached: "flags_cached (onConfigChanged w)"
  by (simp add: flags_cached_def onConfigChanged_flags onConfigChanged_config)

lemma render_step_flags:
  "cursorLine (render_step w) = cursorLine w"
  "cursorColumn (render_step w) = cursorColumn w"
  "config (render_step w) = config w"
  by (simp_all add: render_step_def Let_def requestAnimationFrame_def)

lemma render_steps_flags:
  "cursorLine ((render_step ^^ n) w) = cursorLine w"
  "cursorColumn ((render_step ^^ n) w) = cursorColumn w"
  "config ((render_step ^^ n) w) = config w"
  by (induction n) (simp_all add: render_step_flags)

lemma animationFrame_flags:
  "cursorLine (animationFrame w) = cursorLine w"
  "cursorColumn (animationFrame w) = cursorColumn w"
  "config (animationFrame w) = config w"
  by (simp_all add: animationFrame_def render_steps_flags)

lemma fireTimer_flags:
  "cursorLine (fireTimer h w) = cursorLine w"
  "cursorColumn (fireTimer h w) = cursorColumn w"
  "config (fireTimer h w) = config w"
  by (simp_all add: fireTimer_def onUpdate_flags onUpdate_config)

lemma onAction_flags:
  "cursorLine (onAction a w) = cursorLine w"
  "cursorColumn (onAction a w) = cursorColumn w"
  "config (onAction a w) = config w"
  by (simp_all add: onAction_def Let_def setTimeout_def)

lemma onResize_flags:
  "cursorLine (onResize w) = cursorLine w"
  "cursorColumn (onResize w) = cursorColumn w"
  "config (onResize w) = config w"
  by (simp_all add: onResize_def Let_def split: option.splits)

lemma render_flags:
  "cursorLine (render el w) = cursorLine w"
  "cursorColumn (render el w) = cursorColumn w"
  "config (render el w) = config w"
  by (simp_all add: render_def Let_def onResize_flags)

lemma onKeyDown_flags:
  "cursorLine (onKeyDown r k w) = cursorLine w"
  "cursorColumn (onKeyDown r k w) = cursorColumn w"
  "config (onKeyDown r k w) = config w"
  by (simp_all add: onKeyDown_def onPlainKey_def)

lemma onModeChanged_flags:
  "cursorLine (onModeChanged m w) = cursorLine w"
  "cursorColumn (onModeChanged m w) = cursorColumn w"
  "config (onModeChanged m w) = config w"
  by (simp_all add: onModeChanged_def Let_def)

lemma onVimEvent_flags:
  "cursorLine (onVimEvent n e w) = cursorLine w"
  "cursorColumn (onVimEvent n e w) = cursorColumn w"
  "config (onVimEvent n e w) = config w"
  by (simp_all add: onVimEvent_def Let_def)

lemma onError_flags:
  "cursorLine (state_of (onError err w)) = cursorLine w"
  "cursorColumn (state_of (onError err w)) = cursorColumn w"
  "config (state_of (onError err w)) = config w"
  by (simp_all add: onError_def Let_def split: option.splits)

lemma onLogError_flags:
  "cursorLine (state_of (onLogError err w)) = cursorLine w"
  "cursorColumn (state_of (onLogError err w)) = cursorColumn w"
  "config (state_of (onLogError err w)) = config w"
  by (simp_all add: onLogError_def split: option.splits)

lemma small_handler_flags:
  "cursorLine (onSignatureHelpResponse err sh w) = cursorLine w"
  "cursorColumn (onSignatureHelpResponse err sh w) = cursorColumn w"
  "config (onSignatureHelpResponse err sh w) = config w"
  "cursorLine (onBufferUpdate cx ls w) = cursorLine w"
  "cursorColumn (onBufferUpdate cx ls w) = cursorColumn w"
  "config (onBufferUpdate cx ls w) = config w"
  "cursorLine (onWindowDisplayUpdate cx lm w) = cursorLine w"
  "cursorColumn (onWindowDisplayUpdate cx lm w) = cursorColumn w"
  "config (onWindowDisplayUpdate cx lm w) = config w"
  "cursorLine (onLogInfo i w) = cursorLine w"
  "cursorColumn (onLogInfo i w) = cursorColumn w"
  "config (onLogInfo i w) = config w"
  "cursorLine (onLogWarning i w) = cursorLine w"
  "cursorColumn (onLogWarning i w) = cursorColumn w"
  "config (onLogWarning i w) = config w"
  "cursorLine (onMouse i w) = cursorLine w"
  "cursorColumn (onMouse i w) = cursorColumn w"
  "config (onMouse i w) = config w"
  "cursorLine (onMenuItemClick i w) = cursorLine w"
  "cursorColumn (onMenuItemClick i w) = cursorColumn w"
  "config (onMenuItemClick i w) = config w"
  "cursorLine (init fs w) = cursorLine w"
  "cursorColumn (init fs w) = cursorColumn w"
  "config (init fs w) = config w"
  by (simp_all add: onSignatureHelpResponse_def onBufferUpdate_def onWindowDisplayUpdate_def
      onLogInfo_def onLogWarning_def onMouse_def onMenuItemClick_def init_def)

lemmas passive_flags =
  onResize_flags render_flags onKeyDown_flags onModeChanged_flags onVimEvent_flags
  onError_flags onLogError_flags small_handler_flags animationFrame_flags fireTimer_flags
  onAction_flags

lemma onNeovim_cached: "flags_cached w \<Longrightarrow> flags_cached (state_of (onNeovim ev w))"
  by (cases ev) (simp_all add: flags_cached_def passive_flags)

lemma step_cached: "flags_cached w \<Longrightarrow> flags_cached (step t w)"
  by (cases t) (simp_all add: onNeovim_cached onConfigChanged_cached, simp_all add: flags_cached_def passive_flags)

lemma run_cached: "flags_cached w \<Longrightarrow> flags_cached (run ts w)"
  by (induction ts arbitrary: w) (simp_all add: step_cached)

lemma construct_cached: "flags_cached (construct c)"
  by (simp add: construct_def onConfigChanged_cached)


subsection \<open>What each handler emits\<close>

lemma onVimEvent_effects:
  "effects (onVimEvent n e w) = effects w
     @ [ErrorOverlayOnVimEvent n e, LiveEvaluationOverlayOnVimEvent n e,
        ScrollBarOverlayOnVimEvent n e, TasksOnEvent e]
     @ (if n = ''BufEnter''
        then [UI HideCompletions, UI HidePopupMenu, UI HideSignatureHelp, UI HideQuickInfo]
        else [])
     @ (if n = ''DirChanged'' then [NeovimGetCwdThenChdir] else [])"
  by (simp add: onVimEvent_def Let_def)

lemma onModeChanged_effects:
  "effects (onModeChanged m w) = effects w @ [UI (SetMode m)]
     @ (if m = ''normal'' then
          (if truthy (cursorLine w) then [UI ShowCursorLine] else [])
          @ (if truthy (cursorColumn w) then [UI ShowCursorColumn] else [])
          @ [UI HideCompletions, UI HideSignatureHelp]
        else if m = ''insert'' then
          [UI HideQuickInfo]
          @ (if truthy (cursorLine w) then [UI ShowCursorLine] else [])
          @ (if truthy (cursorColumn w) then [UI ShowCursorColumn] else [])
        else if m = ''cmdline'' then
          [UI HideCursorColumn, UI HideCursorLine, UI HideCompletions, UI HideQuickInfo]
        else [])
     @ [if m = ''insert'' then ErrorOverlayHideDetails else ErrorOverlayShowDetails]"
  by (simp add: onModeChanged_def Let_def)

lemma onModeChanged_flag:
  "errorStartingNeovim (onModeChanged m w) = errorStartingNeovim w"
  by (simp add: onModeChanged_def Let_def)

lemma onVimEvent_flag:
  "errorStartingNeovim (onVimEvent n e w) = errorStartingNeovim w"
  by (simp add: onVimEvent_def Let_def)

lemma onAction_flag:
  "errorStartingNeovim (onAction a w) = errorStartingNeovim w"
  by (simp add: onAction_def Let_def setTimeout_def)

lemma onError_attached:
  "element w = Some el \<Longrightarrow> parentElement el = Some container \<Longrightarrow>
     onError err w =
       Returned (w\<lparr>errorStartingNeovim := True,
                   effects := effects w @ [ReactRenderInstallHelp container]\<rparr>)"
  by (simp add: onError_def Let_def emit_def)

lemma onError_parentless:
  "element w = Some el \<Longrightarrow> parentElement el = None \<Longrightarrow>
     onError err w =
       Threw (InvariantViolation ''Target container is not a DOM element'')
         (w\<lparr>errorStartingNeovim := True\<rparr>)"
  by (simp add: onError_def Let_def)

lemma onError_detached:
  "element w = None \<Longrightarrow>
     onError err w = Threw (TypeError ''parentElement'') (w\<lparr>errorStartingNeovim := True\<rparr>)"
  by (simp add: onError_def Let_def)

lemma other_events_no_install_help:
  assumes "\<not> is_error_event ev"
  shows "errorStartingNeovim (state_of (onNeovim ev w)) = errorStartingNeovim w"
    and "filter is_install_help (emitted w (state_of (onNeovim ev w))) = []"
proof -
  show "errorStartingNeovim (state_of (onNeovim ev w)) = errorStartingNeovim w"
    using assms
    by (cases ev)
      (simp_all add: onVimEvent_flag onModeChanged_flag onAction_flag onBufferUpdate_def
        onWindowDisplayUpdate_def onLogInfo_def onLogWarning_def onLogError_def
        split: option.splits)
  show "filter is_install_help (emitted w (state_of (onNeovim ev w))) = []"
    using assms
    by (cases ev)
      (simp_all add: emitted_def onVimEvent_effects onModeChanged_effects onAction_effects
        onBufferUpdate_def onWindowDisplayUpdate_def onLogInfo_def onLogWarning_def
        onLogError_def split: option.splits)
qed

lemma onKeyDown_popup:
  "isPopupMenuOpen r \<Longrightarrow>
     onKeyDown r key w =
       w\<lparr>effects := effects w @
          (if key = ''<f3>'' then [FormatBuffer]
           else if key = ''<esc>'' then [UI HidePopupMenu]
           else if key = ''<enter>'' then [UI (SelectMenuItem False)]
           else if key = ''<C-v>'' then [UI (SelectMenuItem True)]
           else if key = ''<C-n>'' then [UI NextMenuItem]
           else if key = ''<C-p>'' then [UI PreviousMenuItem]
           else [])\<rparr>"
  by (simp add: onKeyDown_def emit_def)

lemma onKeyDown_popup_no_input:
  "isPopupMenuOpen r \<Longrightarrow>
     \<exists>es. effects (onKeyDown r key w) = effects w @ es \<and> filter is_input es = []"
  by (simp add: onKeyDown_popup)

lemma keys_popup_no_input:
  "\<forall>rk \<in> set rks. isPopupMenuOpen (fst rk) \<Longrightarrow>
     \<exists>es. effects (run (map (\<lambda>rk. KeyDown (fst rk) (snd rk)) rks) w) = effects w @ es
          \<and> filter is_input es = []"
proof (induction rks arbitrary: w)
  case Nil
  then show ?case by simp
next
  case (Cons rk rks)
  from Cons.prems have "isPopupMenuOpen (fst rk)" by simp
  then obtain es where es: "effects (onKeyDown (fst rk) (snd rk) w) = effects w @ es"
    "filter is_input es = []"
    using onKeyDown_popup_no_input by blast
  from Cons.prems have "\<forall>rk \<in> set rks. isPopupMenuOpen (fst rk)" by simp
  from Cons.IH [OF this, of "onKeyDown (fst rk) (snd rk) w"]
  obtain fs where fs:
    "effects (run (map (\<lambda>rk. KeyDown (fst rk) (snd rk)) rks) (onKeyDown (fst rk) (snd rk) w))
       = effects (onKeyDown (fst rk) (snd rk) w) @ fs"
    "filter is_input fs = []"
    by blast
  have "effects (run (map (\<lambda>rk. KeyDown (fst rk) (snd rk)) (rk # rks)) w) = effects w @ (es @ fs)"
    using es fs by simp
  moreover have "filter is_input (es @ fs) = []"
    using es fs by simp
  ultimately show ?case by blast
qed





section \<open>Specified behaviour\<close>

subsection \<open>Startup failure\<close>

text \<open>
  C1 (as amended). Once \<^verbatim>\<open>render\<close> has attached a host element that has a parent, every
  \<^verbatim>\<open>error\<close> event of the editor process records that startup failed and renders the
  install-help screen into that parent, without a log entry; no other event of the editor
  process sets the flag or renders the help screen.
\<close>

theorem startup_error_renders_install_help:
  "(element w = Some el \<and> parentElement el = Some container \<longrightarrow>
      onNeovim (Error err) w =
        Returned (w\<lparr>errorStartingNeovim := True,
                    effects := effects w @ [ReactRenderInstallHelp container]\<rparr>)
      \<and> filter is_log (emitted w (state_of (onNeovim (Error err) w))) = [])
   \<and> (\<not> is_error_event ev \<longrightarrow>
        errorStartingNeovim (state_of (onNeovim ev w)) = errorStartingNeovim w
        \<and> filter is_install_help (emitted w (state_of (onNeovim ev w))) = [])"
  using other_events_no_install_help [of ev w]
  by (simp add: onError_attached emitted_def)

theorem startup_error_renders_install_help_witness:
  "element (render host (construct defaults)) = Some host
   \<and> parentElement host = Some ''host''
   \<and> \<not> is_error_event (LogInfo ''ready'')
   \<and> errorStartingNeovim (state_of (onNeovim (Error ''ENOENT'') (render host (construct defaults))))
   \<and> emitted (render host (construct defaults))
        (state_of (onNeovim (Error ''ENOENT'') (render host (construct defaults))))
      = [ReactRenderInstallHelp ''host'']
   \<and> \<not> errorStartingNeovim (state_of (onNeovim (LogInfo ''ready'') (render host (construct defaults))))"
  using startup_error_renders_install_help
    [of "render host (construct defaults)" host "''host''" "''ENOENT''" "LogInfo ''ready''"]
  by code_simp

text \<open>
  C1 as stated fails: the startup failure is not the only failure handled otherwise than
  by logging. An error answer to a signature-help request is handled by hiding the
  signature-help overlay; nothing is logged and no help screen is rendered.
\<close>

theorem signature_help_failure_is_handled_counterexample:
  "emitted (construct defaults)
     (step (SignatureHelpResponse (Some ''no signature'') ''null'') (construct defaults))
   = [UI HideSignatureHelp]"
  by code_simp

text \<open>
  Before \<^verbatim>\<open>render\<close>, and with a host element that has no parent, the handler throws
  after writing the flag.
\<close>

lemma startup_error_before_render:
  "onNeovim (Error ''ENOENT'') (construct defaults)
   = Threw (TypeError ''parentElement'') ((construct defaults)\<lparr>errorStartingNeovim := True\<rparr>)"
  by code_simp

lemma startup_error_without_parent:
  "onNeovim (Error ''ENOENT'') (render orphan (construct defaults))
   = Threw (InvariantViolation ''Target container is not a DOM element'')
       ((render orphan (construct defaults))\<lparr>errorStartingNeovim := True\<rparr>)"
  by code_simp

subsection \<open>Vim events\<close>

text \<open>
  C2. For every vim event named \<^verbatim>\<open>BufEnter\<close> the handler, after notifying the overlays and
  the task service, hides the completion popup, the popup menu and the signature help
  (and the quick info).
\<close>

theorem buf_enter_hides_overlays:
  "emitted w (step (Neovim (Event ''BufEnter'' evt)) w) =
     [ErrorOverlayOnVimEvent ''BufEnter'' evt, LiveEvaluationOverlayOnVimEvent ''BufEnter'' evt,
      ScrollBarOverlayOnVimEvent ''BufEnter'' evt, TasksOnEvent evt,
      UI HideCompletions, UI HidePopupMenu, UI HideSignatureHelp, UI HideQuickInfo]"
  by (simp add: emitted_def onVimEvent_effects)

theorem buf_enter_hides_overlays_witness:
  "emitted (construct defaults) (step (Neovim (Event ''BufEnter'' ''{}'')) (construct defaults)) =
     [ErrorOverlayOnVimEvent ''BufEnter'' ''{}'', LiveEvaluationOverlayOnVimEvent ''BufEnter'' ''{}'',
      ScrollBarOverlayOnVimEvent ''BufEnter'' ''{}'', TasksOnEvent ''{}'',
      UI HideCompletions, UI HidePopupMenu, UI HideSignatureHelp, UI HideQuickInfo]"
  using buf_enter_hides_overlays [of "construct defaults" "''{}''"]
  by code_simp

subsection \<open>Mode changes\<close>

text \<open>
  C3 (as amended). From construction on, whatever the events, timers and frames in
  between, the cached flags are the values the configuration holds for
  \<^verbatim>\<open>editor.cursorLine\<close> and \<^verbatim>\<open>editor.cursorColumn\<close>, and on every mode change to \<^verbatim>\<open>insert\<close>
  the handler shows the cursor line exactly when \<^verbatim>\<open>editor.cursorLine\<close> is truthy and the
  cursor column exactly when \<^verbatim>\<open>editor.cursorColumn\<close> is truthy. It never hides either:
  afterwards each is visible when its flag is truthy or it was visible before.
\<close>

theorem insert_mode_shows_cursor_when_flagged:
  "emitted w (step (Neovim (ModeChange ''insert'')) w) =
     [UI (SetMode ''insert''), UI HideQuickInfo]
     @ (if truthy (cursorLine w) then [UI ShowCursorLine] else [])
     @ (if truthy (cursorColumn w) then [UI ShowCursorColumn] else [])
     @ [ErrorOverlayHideDetails]
   \<and> cursorLineVisible (dispatch (emitted w (step (Neovim (ModeChange ''insert'')) w)) v)
       = (truthy (cursorLine w) \<or> cursorLineVisible v)
   \<and> cursorColumnVisible (dispatch (emitted w (step (Neovim (ModeChange ''insert'')) w)) v)
       = (truthy (cursorColumn w) \<or> cursorColumnVisible v)
   \<and> cursorLine (step (ConfigChange c) w) = getValue c ''editor.cursorLine''
   \<and> cursorColumn (step (ConfigChange c) w) = getValue c ''editor.cursorColumn''
   \<and> cursorLine (run ts (construct c0)) =
       getValue (config (run ts (construct c0))) ''editor.cursorLine''
   \<and> cursorColumn (run ts (construct c0)) =
       getValue (config (run ts (construct c0))) ''editor.cursorColumn''
   \<and> emitted (run ts (construct c0)) (step (Neovim (ModeChange ''insert'')) (run ts (construct c0))) =
       [UI (SetMode ''insert''), UI HideQuickInfo]
       @ (if truthy (getValue (config (run ts (construct c0))) ''editor.cursorLine'')
          then [UI ShowCursorLine] else [])
       @ (if truthy (getValue (config (run ts (construct c0))) ''editor.cursorColumn'')
          then [UI ShowCursorColumn] else [])
       @ [ErrorOverlayHideDetails]
   \<and> cursorLineVisible
        (dispatch (emitted (run ts (construct c0))
                     (step (Neovim (ModeChange ''insert'')) (run ts (construct c0)))) v)
       = (truthy (getValue (config (run ts (construct c0))) ''editor.cursorLine'')
          \<or> cursorLineVisible v)
   \<and> cursorColumnVisible
        (dispatch (emitted (run ts (construct c0))
                     (step (Neovim (ModeChange ''insert'')) (run ts (construct c0)))) v)
       = (truthy (getValue (config (run ts (construct c0))) ''editor.cursorColumn'')
          \<or> cursorColumnVisible v)"
proof -
  have "flags_cached (run ts (construct c0))"
    by (simp add: run_cached construct_cached)
  then have cached:
    "cursorLine (run ts (construct c0)) =
       getValue (config (run ts (construct c0))) ''editor.cursorLine''"
    "cursorColumn (run ts (construct c0)) =
       getValue (config (run ts (construct c0))) ''editor.cursorColumn''"
    by (simp_all add: flags_cached_def)
  have here:
    "emitted w (step (Neovim (ModeChange ''insert'')) w) =
       [UI (SetMode ''insert''), UI HideQuickInfo]
       @ (if truthy (cursorLine w) then [UI ShowCursorLine] else [])
       @ (if truthy (cursorColumn w) then [UI ShowCursorColumn] else [])
       @ [ErrorOverlayHideDetails]" for w
    by (simp add: emitted_def onModeChanged_effects)
  have line: "cursorLineVisible (dispatch (emitted w (step (Neovim (ModeChange ''insert'')) w)) v)
       = (truthy (cursorLine w) \<or> cursorLineVisible v)" for w
    unfolding here by simp
  have column: "cursorColumnVisible (dispatch (emitted w (step (Neovim (ModeChange ''insert'')) w)) v)
       = (truthy (cursorColumn w) \<or> cursorColumnVisible v)" for w
    unfolding here by simp
  have change:
    "cursorLine (step (ConfigChange c) w) = getValue c ''editor.cursorLine''"
    "cursorColumn (step (ConfigChange c) w) = getValue c ''editor.cursorColumn''"
    by (simp_all add: onConfigChanged_flags)
  show ?thesis
    using here [of w] line [of w] column [of w] change cached
      here [of "run ts (construct c0)"] line [of "run ts (construct c0)"]
      column [of "run ts (construct c0)"]
    by (simp only: cached [symmetric] simp_thms)
qed

theorem insert_mode_shows_cursor_when_flagged_witness:
  "emitted (construct defaults) (step (Neovim (ModeChange ''insert'')) (construct defaults)) =
     [UI (SetMode ''insert''), UI HideQuickInfo, UI ShowCursorLine, ErrorOverlayHideDetails]
   \<and> cursorLineVisible
        (dispatch (emitted (construct defaults)
                     (step (Neovim (ModeChange ''insert'')) (construct defaults))) hidden)
   \<and> \<not> cursorColumnVisible
        (dispatch (emitted (construct defaults)
                     (step (Neovim (ModeChange ''insert'')) (construct defaults))) hidden)
   \<and> cursorLine (run [KeyDown \<lparr>isPopupMenuOpen = False, areCompletionsVisible = False,
                                  screenMode = ''normal''\<rparr> ''i''] (construct defaults))
       = VBool True"
  using insert_mode_shows_cursor_when_flagged
    [where w = "construct defaults" and v = hidden and c = defaults and c0 = defaults
       and ts = "[KeyDown \<lparr>isPopupMenuOpen = False, areCompletionsVisible = False,
                           screenMode = ''normal''\<rparr> ''i'']"]
  by code_simp

text \<open>
  C3 as stated fails in one direction: after the configuration turns
  \<^verbatim>\<open>editor.cursorLine\<close> off, a mode change to \<^verbatim>\<open>insert\<close> dispatches no cursor-line action,
  and the cursor line shown earlier is still visible while the flag is false.
\<close>

theorem insert_mode_visibility_counterexample:
  "emitted (run [ConfigChange plain] (construct defaults))
     (run [ConfigChange plain, Neovim (ModeChange ''insert'')] (construct defaults))
   = [UI (SetMode ''insert''), UI HideQuickInfo, ErrorOverlayHideDetails]
   \<and> cursorLineVisible
        (dispatch (effects (run [ConfigChange plain, Neovim (ModeChange ''insert'')]
                             (construct defaults))) hidden)
   \<and> \<not> truthy (getValue
                 (config (run [ConfigChange plain, Neovim (ModeChange ''insert'')]
                            (construct defaults)))
                 ''editor.cursorLine'')"
  by code_simp

subsection \<open>Logging\<close>

text \<open>
  C4 (as amended). Each \<^verbatim>\<open>logInfo\<close> and \<^verbatim>\<open>logWarning\<close> event, and each \<^verbatim>\<open>logError\<close> event
  whose error carries a stack, produces exactly one log entry of the corresponding type
  (\<^verbatim>\<open>info\<close>, \<^verbatim>\<open>warning\<close>, \<^verbatim>\<open>error\<close>; the details of an error entry are the lines of
  the stack). An error answer to a signature-help request is not logged: it hides the
  signature-help overlay.
\<close>

theorem log_events_make_log_entries:
  "emitted w (step (Neovim (LogInfo info)) w) =
     [UI (MakeLog \<lparr>log_type = ''info'', log_message = info, log_details = None\<rparr>)]
   \<and> emitted w (step (Neovim (LogWarning warning)) w) =
     [UI (MakeLog \<lparr>log_type = ''warning'', log_message = warning, log_details = None\<rparr>)]
   \<and> (err_stack err = Some st \<longrightarrow>
        onNeovim (LogError err) w =
          Returned (emit (UI (MakeLog \<lparr>log_type = ''error'', log_message = err_message err,
                                        log_details = Some (split_on (CHR 0x0A) st)\<rparr>)) w))
   \<and> (truthy_string e \<longrightarrow>
        emitted w (step (SignatureHelpResponse e signatureHelp) w) = [UI HideSignatureHelp])"
  by (simp add: emitted_def onLogInfo_def onLogWarning_def onLogError_def
      onSignatureHelpResponse_def)

theorem log_events_make_log_entries_witness:
  "err_stack \<lparr>err_message = ''boom'', err_stack = Some (''Error: boom'' @ [CHR 0x0A] @ ''  at f'')\<rparr>
     = Some (''Error: boom'' @ [CHR 0x0A] @ ''  at f'')
   \<and> truthy_string (Some ''failed'')
   \<and> emitted (construct defaults)
        (step (Neovim (LogError \<lparr>err_message = ''boom'',
                 err_stack = Some (''Error: boom'' @ [CHR 0x0A] @ ''  at f'')\<rparr>)) (construct defaults))
      = [UI (MakeLog \<lparr>log_type = ''error'', log_message = ''boom'',
                      log_details = Some [''Error: boom'', ''  at f'']\<rparr>)]
   \<and> emitted (construct defaults) (step (Neovim (LogInfo ''started'')) (construct defaults))
      = [UI (MakeLog \<lparr>log_type = ''info'', log_message = ''started'', log_details = None\<rparr>)]
   \<and> emitted (construct defaults)
        (step (SignatureHelpResponse (Some ''failed'') ''null'') (construct defaults))
      = [UI HideSignatureHelp]"
  using log_events_make_log_entries
    [of "construct defaults" "''started''" "''slow''"
        "\<lparr>err_message = ''boom'', err_stack = Some (''Error: boom'' @ [CHR 0x0A] @ ''  at f'')\<rparr>"
        "''Error: boom'' @ [CHR 0x0A] @ ''  at f''" "Some ''failed''" "''null''"]
  by code_simp

text \<open>
  C4 as stated fails: an error path bypasses the log. The error answer of a provider to a
  signature-help request leaves no log entry in the trace.
\<close>

theorem signature_help_error_not_logged_counterexample:
  "filter is_log
     (emitted (render host (construct defaults))
        (step (SignatureHelpResponse (Some ''provider failed'') ''null'')
           (render host (construct defaults))))
   = []"
  by code_simp

subsection \<open>Rendering\<close>

text \<open>
  C5. Every run of the render step updates the renderer and cleans up the rendered cells
  (after a cursor-position update when an update timeout is pending) and queues itself
  for the next animation frame. The constructor runs it once; from then on, whatever
  happens in between, exactly one render is queued for the next frame, and every
  animation frame renders once.
\<close>

theorem render_runs_every_frame:
  "emitted w (render_step w) =
     (if truthy_handle (pendingTimeout w) then [UI SetCursorPosition] else [])
     @ [RendererUpdate, CleanUpRenderedCells]
   \<and> frameCallbacks (render_step w) = Suc (frameCallbacks w)
   \<and> take 2 (effects (construct c)) = [RendererUpdate, CleanUpRenderedCells]
   \<and> frameCallbacks (run ts (construct c)) = 1
   \<and> emitted (run ts (construct c)) (step AnimationFrame (run ts (construct c))) =
       (if truthy_handle (pendingTimeout (run ts (construct c))) then [UI SetCursorPosition] else [])
       @ [RendererUpdate, CleanUpRenderedCells]"
proof -
  have one: "frameCallbacks (run ts (construct c)) = 1"
    by (simp add: run_frames construct_frames)
  have "effects (construct c) =
          [RendererUpdate, CleanUpRenderedCells] @
          drop 2 (effects (construct c))"
    by (simp add: construct_def onConfigChanged_effects render_step_effects render_step_fields
        fresh_def)
  then have first: "take 2 (effects (construct c)) = [RendererUpdate, CleanUpRenderedCells]"
    by (metis append_eq_conv_conj length_Cons list.size(3) numeral_2_eq_2)
  show ?thesis
    using one first
    by (simp add: emitted_def render_step_effects render_step_fields animationFrame_one)
qed

theorem render_runs_every_frame_witness:
  "emitted (run [Neovim (Action ''put''), AnimationFrame] (construct defaults))
     (step AnimationFrame (run [Neovim (Action ''put''), AnimationFrame] (construct defaults)))
   = [UI SetCursorPosition, RendererUpdate, CleanUpRenderedCells]
   \<and> frameCallbacks (run [Neovim (Action ''put''), AnimationFrame] (construct defaults)) = 1"
  using render_runs_every_frame
    [of "construct defaults" defaults "[Neovim (Action ''put''), AnimationFrame]"]
  by code_simp

subsection \<open>Start and resize\<close>

text \<open>
  C6. \<^verbatim>\<open>init\<close> starts the editor process with exactly the files given, and a window
  resize, with the host element attached, dirties all cells and then hands the element's
  current width and height to the editor process's resize.
\<close>

theorem init_starts_and_resize_forwards:
  "emitted w (step (Init filesToOpen) w) = [NeovimStart filesToOpen]
   \<and> (element w = Some el \<longrightarrow>
        emitted w (step WindowResize w) =
          [DirtyAllCells, NeovimResize (offsetWidth el) (offsetHeight el), RendererOnResize])"
  by (simp add: emitted_def init_def onResize_def Let_def)

theorem init_starts_and_resize_forwards_witness:
  "element (render host (construct defaults)) = Some host
   \<and> emitted (render host (construct defaults)) (step WindowResize (render host (construct defaults)))
      = [DirtyAllCells, NeovimResize 800 600, RendererOnResize]
   \<and> emitted (construct defaults) (step (Init [''a.ts'', ''b.ts'']) (construct defaults))
      = [NeovimStart [''a.ts'', ''b.ts'']]"
  using init_starts_and_resize_forwards
      [of "render host (construct defaults)" "[''a.ts'', ''b.ts'']" host]
    init_starts_and_resize_forwards [of "construct defaults" "[''a.ts'', ''b.ts'']" host]
  by code_simp

subsection \<open>Configuration changes\<close>

text \<open>
  C7. On every configuration change the cursor-line opacity, the cursor-column opacity
  and the font (family and size) are read from the new configuration, under the keys
  \<^verbatim>\<open>editor.cursorLineOpacity\<close>, \<^verbatim>\<open>editor.cursorColumnOpacity\<close>, \<^verbatim>\<open>editor.fontFamily\<close> and
  \<^verbatim>\<open>editor.fontSize\<close>, and handed to the UI and to the editor process.
\<close>

theorem config_change_applies_opacity_and_font:
  "emitted w (step (ConfigChange c) w) =
     [UI (SetCursorLineOpacity (getValue c ''editor.cursorLineOpacity'')),
      UI (SetCursorColumnOpacity (getValue c ''editor.cursorColumnOpacity''))]
     @ (if truthy (getValue c ''editor.cursorLine'') then [UI ShowCursorLine] else [])
     @ (if truthy (getValue c ''editor.cursorColumn'') then [UI ShowCursorColumn] else [])
     @ [NeovimSetFont (getValue c ''editor.fontFamily'') (getValue c ''editor.fontSize''),
        UI SetCursorPosition]"
  by (simp add: emitted_def onConfigChanged_effects)

theorem config_change_applies_opacity_and_font_witness:
  "emitted (construct plain) (step (ConfigChange defaults) (construct plain)) =
     [UI (SetCursorLineOpacity (VNum (1 / 10))), UI (SetCursorColumnOpacity (VNum (1 / 10))),
      UI ShowCursorLine, NeovimSetFont (VStr ''Consolas'') (VStr ''14px''), UI SetCursorPosition]"
  using config_change_applies_opacity_and_font [of "construct plain" defaults]
  by code_simp

subsection \<open>The deferred cursor update\<close>



subsection \<open>Keys while the popup menu is open\<close>

text \<open>
  C9. While the popup menu is open no key is forwarded as input to the editor process:
  \<^verbatim>\<open><f3>\<close> formats the buffer, \<^verbatim>\<open><esc>\<close>, \<^verbatim>\<open><enter>\<close>, \<^verbatim>\<open><C-v>\<close>, \<^verbatim>\<open><C-n>\<close> and \<^verbatim>\<open><C-p>\<close> act on
  the menu, and every other key changes nothing.
\<close>

theorem popup_menu_keys_not_forwarded:
  assumes "isPopupMenuOpen r" and "\<forall>rk \<in> set rks. isPopupMenuOpen (fst rk)"
  shows "onKeyDown r key w =
           w\<lparr>effects := effects w @
              (if key = ''<f3>'' then [FormatBuffer]
               else if key = ''<esc>'' then [UI HidePopupMenu]
               else if key = ''<enter>'' then [UI (SelectMenuItem False)]
               else if key = ''<C-v>'' then [UI (SelectMenuItem True)]
               else if key = ''<C-n>'' then [UI NextMenuItem]
               else if key = ''<C-p>'' then [UI PreviousMenuItem]
               else [])\<rparr>
         \<and> filter is_input (emitted w (step (KeyDown r key) w)) = []
         \<and> filter is_input
             (emitted w (run (map (\<lambda>rk. KeyDown (fst rk) (snd rk)) rks) w)) = []"
proof -
  from onKeyDown_popup_no_input [OF assms(1), of key w]
  have one: "filter is_input (emitted w (step (KeyDown r key) w)) = []"
    by (auto simp add: emitted_def)
  from keys_popup_no_input [OF assms(2), of w]
  have many: "filter is_input
                (emitted w (run (map (\<lambda>rk. KeyDown (fst rk) (snd rk)) rks) w)) = []"
    by (auto simp add: emitted_def)
  from onKeyDown_popup [OF assms(1)] one many show ?thesis by blast
qed

theorem popup_menu_keys_not_forwarded_witness:
  "isPopupMenuOpen \<lparr>isPopupMenuOpen = True, areCompletionsVisible = True, screenMode = ''normal''\<rparr>
   \<and> onKeyDown \<lparr>isPopupMenuOpen = True, areCompletionsVisible = True, screenMode = ''normal''\<rparr>
        ''j'' (construct defaults) = construct defaults
   \<and> emitted (construct defaults)
       (run (map (\<lambda>rk. KeyDown (fst rk) (snd rk))
               [(\<lparr>isPopupMenuOpen = True, areCompletionsVisible = True, screenMode = ''normal''\<rparr>, ''<C-n>''),
                (\<lparr>isPopupMenuOpen = True, areCompletionsVisible = False, screenMode = ''insert''\<rparr>, ''x''),
                (\<lparr>isPopupMenuOpen = True, areCompletionsVisible = False, screenMode = ''insert''\<rparr>, ''<enter>'')])
          (construct defaults))
     = [UI NextMenuItem, UI (SelectMenuItem False)]"
  using popup_menu_keys_not_forwarded
    [of "\<lparr>isPopupMenuOpen = True, areCompletionsVisible = True, screenMode = ''normal''\<rparr>"
        "[(\<lparr>isPopupMenuOpen = True, areCompletionsVisible = True, screenMode = ''normal''\<rparr>, ''<C-n>''),
          (\<lparr>isPopupMenuOpen = True, areCompletionsVisible = False, screenMode = ''insert''\<rparr>, ''x''),
          (\<lparr>isPopupMenuOpen = True, areCompletionsVisible = False, screenMode = ''insert''\<rparr>, ''<enter>'')]"
        "''j''" "construct defaults"]
  by code_simp

subsection \<open>Menu items\<close>

text \<open>
  C10. A menu-item click whose message starts with a colon is executed as the ex command
  \<^verbatim>\<open>exec "message"\<close>; any other message is executed in normal mode, as
  \<^verbatim>\<open>exec ":normal! message"\<close>.
\<close>

theorem menu_item_click_executes:
  "emitted w (step (MenuItemClick message) w) =
     [NeovimCommand
        (if message \<noteq> [] \<and> hd message = CHR '':''
         then ''exec '' @ [CHR 0x22] @ message @ [CHR 0x22]
         else ''exec '' @ [CHR 0x22] @ '':normal! '' @ message @ [CHR 0x22])]"
  by (cases message) (simp_all add: emitted_def onMenuItemClick_def startsWith_def)

theorem menu_item_click_executes_witness:
  "emitted (construct defaults) (step (MenuItemClick '':tabnew'') (construct defaults))
     = [NeovimCommand (''exec '' @ [CHR 0x22] @ '':tabnew'' @ [CHR 0x22])]
   \<and> emitted (construct defaults) (step (MenuItemClick ''u'') (construct defaults))
     = [NeovimCommand (''exec '' @ [CHR 0x22] @ '':normal! u'' @ [CHR 0x22])]"
  using menu_item_click_executes [of "construct defaults" "'':tabnew''"]
    menu_item_click_executes [of "construct defaults" "''u''"]
  by code_simp

end
